theory Spec2Isabelle
  imports Main "HOL-Library.AList"
begin

section \<open>Errors\<close>

text \<open>
  Every exception the modelled code throws is a value of this type. \<open>Error\<close> is a plain
  JavaScript \<open>new Error(message)\<close>; the other constructors are the error classes of
  \<open>errors.ts\<close> and \<open>tasks.ts\<close>, with the fields their constructors take.
\<close>

datatype error =
    Error string
  | MCPConnectionError string
  | MCPTimeoutError string nat
  | TaskTimeoutError string nat
  | TaskAbortedError string

section \<open>JavaScript maps\<close>

text \<open>
  A JavaScript \<open>Map\<close> is an association list in insertion order with one entry per key:
  \<open>set\<close> replaces the value of a key in place or appends a new entry
  (\<^const>\<open>AList.update\<close>), \<open>delete\<close> removes the entry (\<^const>\<open>AList.delete\<close>),
  \<open>get\<close> is \<^const>\<open>map_of\<close>.
\<close>

definition has :: "('k \<times> 'v) list \<Rightarrow> 'k \<Rightarrow> bool" where
  "has m k = (map_of m k \<noteq> None)"

section \<open>cancellation.ts: CancellationManager\<close>

text \<open>
  \<open>RequestId = string | number\<close>. An \<open>AbortController\<close> is an object, so the map holds
  references; \<open>aborted\<close> is the store of the controllers' \<open>signal.aborted\<close> flags and
  \<open>fresh\<close> the next unused reference (\<open>new AbortController()\<close>).
\<close>

datatype RequestId = RidString string | RidNumber int

type_synonym AbortController = nat

record CancellationManager =
  pendingRequests :: "(RequestId \<times> AbortController) list"
  counter :: nat
  aborted :: "AbortController \<Rightarrow> bool"
  fresh :: AbortController

definition newCancellationManager :: CancellationManager where
  "newCancellationManager =
     \<lparr>pendingRequests = [], counter = 0, aborted = (\<lambda>_. False), fresh = 0\<rparr>"

definition digit :: "nat \<Rightarrow> char" where
  "digit d = ''0123456789'' ! d"

fun dec :: "nat \<Rightarrow> string" where
  "dec n = (if n < 10 then [digit n] else dec (n div 10) @ [digit (n mod 10)])"

declare dec.simps [simp del]

text \<open>\<open>generateRequestId\<close>: \<open>`req-${Date.now()}-${this.counter++}`\<close>; the clock is a parameter.\<close>

definition generateRequestId :: "CancellationManager \<Rightarrow> nat \<Rightarrow> RequestId \<times> CancellationManager" where
  "generateRequestId m now =
     (RidString (''req-'' @ dec now @ ''-'' @ dec (counter m)), m\<lparr>counter := Suc (counter m)\<rparr>)"

definition create :: "CancellationManager \<Rightarrow> RequestId \<Rightarrow> AbortController \<times> CancellationManager" where
  "create m requestId =
     (let controller = fresh m
      in (controller,
          m\<lparr>pendingRequests := AList.update requestId controller (pendingRequests m),
            aborted := (aborted m)(controller := False),
            fresh := Suc controller\<rparr>))"

definition complete :: "CancellationManager \<Rightarrow> RequestId \<Rightarrow> CancellationManager" where
  "complete m requestId = m\<lparr>pendingRequests := AList.delete requestId (pendingRequests m)\<rparr>"

definition cancel :: "CancellationManager \<Rightarrow> RequestId \<Rightarrow> bool \<times> CancellationManager" where
  "cancel m requestId =
     (case map_of (pendingRequests m) requestId of
        Some controller \<Rightarrow>
          (True, m\<lparr>aborted := (aborted m)(controller := True),
                   pendingRequests := AList.delete requestId (pendingRequests m)\<rparr>)
      | None \<Rightarrow> (False, m))"

definition isPending :: "CancellationManager \<Rightarrow> RequestId \<Rightarrow> bool" where
  "isPending m requestId = has (pendingRequests m) requestId"

definition cancelAll :: "CancellationManager \<Rightarrow> CancellationManager" where
  "cancelAll m =
     m\<lparr>aborted := fold (\<lambda>controller a. a(controller := True)) (map snd (pendingRequests m)) (aborted m),
       pendingRequests := []\<rparr>"

section \<open>progress.ts: ProgressTracker\<close>

text \<open>Callbacks are function objects; only their identity matters, so they are numbers.\<close>

datatype ProgressToken = TokString string | TokNumber int

type_synonym ProgressCallback = nat

record ProgressTracker =
  callbacks_pt :: "(ProgressToken \<times> ProgressCallback) list"
  counter_pt :: nat

definition newProgressTracker :: ProgressTracker where
  "newProgressTracker = \<lparr>callbacks_pt = [], counter_pt = 0\<rparr>"

definition register :: "ProgressTracker \<Rightarrow> ProgressToken \<Rightarrow> ProgressCallback \<Rightarrow> ProgressTracker" where
  "register p token callback = p\<lparr>callbacks_pt := AList.update token callback (callbacks_pt p)\<rparr>"

definition unregister :: "ProgressTracker \<Rightarrow> ProgressToken \<Rightarrow> ProgressTracker" where
  "unregister p token = p\<lparr>callbacks_pt := AList.delete token (callbacks_pt p)\<rparr>"

definition clear_pt :: "ProgressTracker \<Rightarrow> ProgressTracker" where
  "clear_pt p = p\<lparr>callbacks_pt := []\<rparr>"

section \<open>tasks.ts: Task, TaskStatusManager\<close>

type_synonym TaskId = string

datatype TaskState = pending | running | completed | failed | canceled

record Task =
  id_task :: TaskId
  state :: TaskState
  message :: "string option"
  progress :: "(nat \<times> nat option) option"

record TaskResult =
  id_result :: TaskId
  result :: "string option"
  error_result :: "(int \<times> string) option"

type_synonym TaskStatusCallback = nat

text \<open>
  \<open>callbacks\<close> is a \<open>Map<TaskId, Set<TaskStatusCallback>>\<close>. A \<open>Set\<close> is an object, and the
  closure that \<open>subscribe\<close> returns keeps a reference to the one it found or made, so the
  sets live in a store: \<open>callbacks\<close> maps a task to the reference of its set, \<open>sets\<close> gives
  each reference its elements (in insertion order, each once), \<open>nextSet\<close> is the next
  unused reference (\<open>new Set()\<close>).
\<close>

record TaskStatusManager =
  callbacks :: "(TaskId \<times> nat) list"
  sets :: "nat \<Rightarrow> TaskStatusCallback list"
  nextSet :: nat

definition newTaskStatusManager :: TaskStatusManager where
  "newTaskStatusManager = \<lparr>callbacks = [], sets = (\<lambda>_. []), nextSet = 0\<rparr>"

text \<open>The closure returned by \<open>subscribe\<close>: its captured \<open>taskId\<close>, \<open>callbacks\<close> and \<open>callback\<close>.\<close>

record Unsubscribe =
  u_taskId :: TaskId
  u_callbacks :: nat
  u_callback :: TaskStatusCallback

definition set_add :: "'a \<Rightarrow> 'a list \<Rightarrow> 'a list" where
  "set_add x xs = (if x \<in> set xs then xs else xs @ [x])"

definition subscribe ::
  "TaskStatusManager \<Rightarrow> TaskId \<Rightarrow> TaskStatusCallback \<Rightarrow> Unsubscribe \<times> TaskStatusManager" where
  "subscribe m taskId callback =
     (let (cbs, m1) =
            (case map_of (callbacks m) taskId of
               None \<Rightarrow> (nextSet m,
                         m\<lparr>callbacks := AList.update taskId (nextSet m) (callbacks m),
                           sets := (sets m)(nextSet m := []),
                           nextSet := Suc (nextSet m)\<rparr>)
             | Some r \<Rightarrow> (r, m))
      in (\<lparr>u_taskId = taskId, u_callbacks = cbs, u_callback = callback\<rparr>,
          m1\<lparr>sets := (sets m1)(cbs := set_add callback (sets m1 cbs))\<rparr>))"

text \<open>Calling the closure: \<open>callbacks.delete(callback); if (callbacks.size === 0) this.callbacks.delete(taskId)\<close>.\<close>

definition unsubscribe :: "TaskStatusManager \<Rightarrow> Unsubscribe \<Rightarrow> TaskStatusManager" where
  "unsubscribe m u =
     (let m1 = m\<lparr>sets := (sets m)(u_callbacks u := removeAll (u_callback u) (sets m (u_callbacks u)))\<rparr>
      in if sets m1 (u_callbacks u) = []
         then m1\<lparr>callbacks := AList.delete (u_taskId u) (callbacks m1)\<rparr>
         else m1)"

text \<open>
  \<open>handleStatus(task)\<close> calls every callback of the task's set, each inside its own
  \<open>try/catch\<close>; the model returns the callbacks it calls, in order.
\<close>

definition handleStatus :: "TaskStatusManager \<Rightarrow> Task \<Rightarrow> TaskStatusCallback list" where
  "handleStatus m task =
     (case map_of (callbacks m) (id_task task) of None \<Rightarrow> [] | Some r \<Rightarrow> sets m r)"

definition hasSubscribers :: "TaskStatusManager \<Rightarrow> TaskId \<Rightarrow> bool" where
  "hasSubscribers m taskId =
     (case map_of (callbacks m) taskId of None \<Rightarrow> False | Some r \<Rightarrow> length (sets m r) > 0)"

definition clear_tsm :: "TaskStatusManager \<Rightarrow> TaskStatusManager" where
  "clear_tsm m = m\<lparr>callbacks := []\<rparr>"

section \<open>client.ts: DedalusMCPClient\<close>

text \<open>
  The client wraps the SDK client and its transport, which are outside this repository:
  \<open>sent\<close> records, in order, what the client hands to them, and what they answer is a
  parameter of each operation. JSON payloads are opaque strings.
\<close>

type_synonym Json = string

record CallToolResult =
  content :: "Json list"
  isError :: "bool option"
  structuredContent :: "Json option"
  meta :: "Json option"

datatype wire =
    TransportClose
  | CallToolRequest string "Json option"
  | CancelledNotification RequestId string

record DedalusMCPClient =
  connected :: bool
  progressTracker :: ProgressTracker
  cancellationManager :: CancellationManager
  taskStatusManager :: TaskStatusManager
  sent :: "wire list"

text \<open>A client as the factory methods return it: connected, with empty registries.\<close>

definition connectedClient :: DedalusMCPClient where
  "connectedClient =
     \<lparr>connected = True, progressTracker = newProgressTracker,
      cancellationManager = newCancellationManager,
      taskStatusManager = newTaskStatusManager, sent = []\<rparr>"

definition ensureConnected :: "DedalusMCPClient \<Rightarrow> error option" where
  "ensureConnected c =
     (if \<not> connected c
      then Some (MCPConnectionError ''Not connected to MCP server. Call connect() first.'')
      else None)"

text \<open>
  \<open>close()\<close>. \<open>closeError\<close> is what \<open>await this.client.close()\<close> throws, if anything; the
  \<open>finally\<close> block runs in both cases and the error, if any, leaves \<open>close\<close> after it.
\<close>

definition close :: "DedalusMCPClient \<Rightarrow> error option \<Rightarrow> (error + unit) \<times> DedalusMCPClient" where
  "close c closeError =
     (if \<not> connected c then (Inr (), c)
      else
        let c1 = c\<lparr>sent := sent c @ [TransportClose]\<rparr>;
            c2 = c1\<lparr>connected := False,
                    progressTracker := clear_pt (progressTracker c1),
                    cancellationManager := cancelAll (cancellationManager c1),
                    taskStatusManager := clear_tsm (taskStatusManager c1)\<rparr>
        in (case closeError of Some e \<Rightarrow> (Inl e, c2) | None \<Rightarrow> (Inr (), c2)))"

subsection \<open>Pagination\<close>

record 'a ListResult =
  items :: "'a list"
  nextCursor :: "string option"

text \<open>
  \<open>listTools(cursor)\<close>, \<open>listResources(cursor)\<close>, \<open>listPrompts(cursor)\<close>: each calls
  \<open>ensureConnected()\<close> and sends \<open>cursor ? { cursor } : undefined\<close>. The server's answers are a
  script, one entry per request; the result is \<open>None\<close> when the script ends before the
  loop does (the server has not answered yet). The second component is the cursors sent.
\<close>

definition truthy :: "string option \<Rightarrow> bool" where
  "truthy s = (case s of None \<Rightarrow> False | Some x \<Rightarrow> x \<noteq> [])"

definition cursorParam :: "string option \<Rightarrow> string option" where
  "cursorParam cursor = (if truthy cursor then cursor else None)"

text \<open>
  The loop \<open>do { result = await this.listX(cursor); acc.push(...result.items);
  cursor = result.nextCursor } while (cursor)\<close>.
\<close>

fun listAll ::
  "DedalusMCPClient \<Rightarrow> (error + 'a ListResult) list \<Rightarrow> string option \<Rightarrow> 'a list \<Rightarrow>
   (error + 'a list) option \<times> string option list" where
  "listAll c [] cursor acc =
     (case ensureConnected c of
        Some e \<Rightarrow> (Some (Inl e), [])
      | None \<Rightarrow> (None, [cursorParam cursor]))"
| "listAll c (reply # script) cursor acc =
     (case ensureConnected c of
        Some e \<Rightarrow> (Some (Inl e), [])
      | None \<Rightarrow>
        (case reply of
           Inl e \<Rightarrow> (Some (Inl e), [cursorParam cursor])
         | Inr res \<Rightarrow>
             if truthy (nextCursor res)
             then (let (out, reqs) = listAll c script (nextCursor res) (acc @ items res)
                   in (out, cursorParam cursor # reqs))
             else (Some (Inr (acc @ items res)), [cursorParam cursor])))"

record Tool =
  name :: string
  description :: "string option"
  inputSchema :: Json

record Resource =
  uri :: string
  name_resource :: string

record Prompt =
  name_prompt :: string
  description_prompt :: "string option"

definition listAllTools ::
  "DedalusMCPClient \<Rightarrow> (error + Tool ListResult) list \<Rightarrow> (error + Tool list) option \<times> string option list" where
  "listAllTools c script = listAll c script None []"

definition listAllResources ::
  "DedalusMCPClient \<Rightarrow> (error + Resource ListResult) list \<Rightarrow> (error + Resource list) option \<times> string option list" where
  "listAllResources c script = listAll c script None []"

definition listAllPrompts ::
  "DedalusMCPClient \<Rightarrow> (error + Prompt ListResult) list \<Rightarrow> (error + Prompt list) option \<times> string option list" where
  "listAllPrompts c script = listAll c script None []"

subsection \<open>Cancellable tool calls\<close>

datatype 'a promise = Pending | Resolved 'a | Rejected error

record CancellableOperation =
  promise :: "CallToolResult promise"
  requestId :: RequestId

text \<open>
  \<open>callTool(name, args)\<close> up to its \<open>await\<close>: the connection check, then the request is
  handed to the SDK client.
\<close>

definition callTool_dispatch ::
  "DedalusMCPClient \<Rightarrow> string \<Rightarrow> Json option \<Rightarrow> (error + unit) \<times> DedalusMCPClient" where
  "callTool_dispatch c nm args =
     (case ensureConnected c of
        Some e \<Rightarrow> (Inl e, c)
      | None \<Rightarrow> (Inr (), c\<lparr>sent := sent c @ [CallToolRequest nm args]\<rparr>))"

text \<open>
  \<open>callToolCancellable(name, args)\<close>: the synchronous part, which returns the operation.
  The body of the \<open>async\<close> function runs up to its first \<open>await\<close>: \<open>this.ensureConnected()\<close>
  stands before the \<open>try\<close>, so what it throws rejects the promise without reaching the
  \<open>catch\<close>; inside the \<open>try\<close>, \<open>this.callTool\<close> runs up to its own \<open>await\<close>.
\<close>

definition callToolCancellable ::
  "DedalusMCPClient \<Rightarrow> nat \<Rightarrow> string \<Rightarrow> Json option \<Rightarrow> CancellableOperation \<times> DedalusMCPClient" where
  "callToolCancellable c now nm args =
     (let (rid, cm1) = generateRequestId (cancellationManager c) now;
          (controller, cm2) = create cm1 rid;
          c1 = c\<lparr>cancellationManager := cm2\<rparr>
      in case ensureConnected c1 of
           Some e \<Rightarrow> (\<lparr>promise = Rejected e, requestId = rid\<rparr>, c1)
         | None \<Rightarrow>
            (case callTool_dispatch c1 nm args of
               (Inl e, c2) \<Rightarrow>
                 (\<lparr>promise = Rejected e, requestId = rid\<rparr>,
                  c2\<lparr>cancellationManager := complete (cancellationManager c2) rid\<rparr>)
             | (Inr u, c2) \<Rightarrow> (\<lparr>promise = Pending, requestId = rid\<rparr>, c2)))"

text \<open>
  The rest of the \<open>async\<close> function, when the awaited call settles with \<open>outcome\<close>: both the
  \<open>try\<close> and the \<open>catch\<close> branch call \<open>complete(requestId)\<close>.
\<close>

definition callToolCancellable_settle ::
  "DedalusMCPClient \<Rightarrow> RequestId \<Rightarrow> error + CallToolResult \<Rightarrow> CallToolResult promise \<times> DedalusMCPClient" where
  "callToolCancellable_settle c rid outcome =
     (case outcome of
        Inr res \<Rightarrow> (Resolved res, c\<lparr>cancellationManager := complete (cancellationManager c) rid\<rparr>)
      | Inl e \<Rightarrow> (Rejected e, c\<lparr>cancellationManager := complete (cancellationManager c) rid\<rparr>))"

text \<open>The returned \<open>cancel\<close> function.\<close>

definition callToolCancellable_cancel :: "DedalusMCPClient \<Rightarrow> RequestId \<Rightarrow> DedalusMCPClient" where
  "callToolCancellable_cancel c rid =
     (case cancel (cancellationManager c) rid of
        (True, cm) \<Rightarrow> c\<lparr>cancellationManager := cm,
                         sent := sent c @ [CancelledNotification rid ''User cancelled'']\<rparr>
      | (False, cm) \<Rightarrow> c\<lparr>cancellationManager := cm\<rparr>)"

section \<open>tasks.ts: waitForTask\<close>

text \<open>
  Time is a number of milliseconds. An \<open>AbortSignal\<close> is given by the instant at which its
  \<open>abort\<close> event fires, if it ever does; \<open>signal?.aborted\<close> read at \<open>now\<close> is
  \<open>signal_aborted\<close>.
\<close>

type_synonym AbortSignal = "nat option"

record WaitForTaskOptions =
  pollInterval :: "nat option"
  timeout :: "nat option"
  onStatus :: "TaskStatusCallback option"
  signal :: "AbortSignal option"

definition signal_aborted :: "AbortSignal option \<Rightarrow> nat \<Rightarrow> bool" where
  "signal_aborted sg now = (case sg of Some (Some t) \<Rightarrow> t \<le> now | _ \<Rightarrow> False)"

text \<open>
  \<open>sleep(ms, signal)\<close> started at \<open>now\<close>: how its promise settles, and when. An already
  aborted signal rejects at once; an abort event before the timer rejects at the instant
  of the event; otherwise the timer resolves the promise (an abort event at the very
  instant of the timer is taken to come after it).
\<close>

definition sleep :: "nat \<Rightarrow> AbortSignal option \<Rightarrow> nat \<Rightarrow> (error + unit) \<times> nat" where
  "sleep ms sg now =
     (if signal_aborted sg now then (Inl (Error ''Aborted''), now)
      else (case sg of
              Some (Some t) \<Rightarrow>
                if t < now + ms then (Inl (Error ''Aborted''), t) else (Inr (), now + ms)
            | _ \<Rightarrow> (Inr (), now + ms)))"

text \<open>
  One round trip of \<open>client.getTask\<close>: how long it takes, what it answers, and what the
  \<open>onStatus\<close> callback throws when it is called with the answer, if anything.
\<close>

record poll =
  latency :: nat
  reply :: "error + Task"
  thrown :: "error option"

datatype request = GetTask TaskId | GetTaskResult TaskId

text \<open>\<open>timeout && Date.now() - startTime > timeout\<close>: the exceeded timeout, if any.\<close>

definition timeoutExceeded :: "nat option \<Rightarrow> nat \<Rightarrow> nat \<Rightarrow> nat option" where
  "timeoutExceeded tmo startTime now =
     (case tmo of
        Some t \<Rightarrow> if t \<noteq> 0 \<and> now - startTime > t then Some t else None
      | None \<Rightarrow> None)"

definition terminal :: "TaskState \<Rightarrow> bool" where
  "terminal s = (s = completed \<or> s = failed \<or> s = canceled)"

text \<open>
  The \<open>while (true)\<close> loop, one script entry per iteration. The result is the outcome
  (\<open>None\<close> while \<open>getTask\<close> has not answered), the instant it is reached, the requests
  made and the tasks passed to \<open>onStatus\<close>. \<open>final\<close> is how \<open>client.getTaskResult\<close> settles.
\<close>

fun poll_loop ::
  "TaskId \<Rightarrow> nat \<Rightarrow> nat option \<Rightarrow> TaskStatusCallback option \<Rightarrow> AbortSignal option \<Rightarrow> nat \<Rightarrow>
   error + TaskResult \<Rightarrow> poll list \<Rightarrow> nat \<Rightarrow>
   (error + TaskResult) option \<times> nat \<times> request list \<times> Task list" where
  "poll_loop taskId interval tmo cb sg startTime final [] now =
     (if signal_aborted sg now then (Some (Inl (TaskAbortedError taskId)), now, [], [])
      else (case timeoutExceeded tmo startTime now of
              Some t \<Rightarrow> (Some (Inl (TaskTimeoutError taskId t)), now, [], [])
            | None \<Rightarrow> (None, now, [GetTask taskId], [])))"
| "poll_loop taskId interval tmo cb sg startTime final (p # script) now =
     (if signal_aborted sg now then (Some (Inl (TaskAbortedError taskId)), now, [], [])
      else (case timeoutExceeded tmo startTime now of
              Some t \<Rightarrow> (Some (Inl (TaskTimeoutError taskId t)), now, [], [])
            | None \<Rightarrow>
               (case reply p of
                  Inl e \<Rightarrow> (Some (Inl e), now + latency p, [GetTask taskId], [])
                | Inr task \<Rightarrow>
                   (let called = (if cb = None then [] else [task])
                    in case (if cb = None then None else thrown p) of
                         Some e \<Rightarrow> (Some (Inl e), now + latency p, [GetTask taskId], called)
                       | None \<Rightarrow>
                           if terminal (state task)
                           then (Some final, now + latency p,
                                 [GetTask taskId, GetTaskResult taskId], called)
                           else (case sleep interval sg (now + latency p) of
                                   (Inl e, now') \<Rightarrow> (Some (Inl e), now', [GetTask taskId], called)
                                 | (Inr u, now') \<Rightarrow>
                                     (case poll_loop taskId interval tmo cb sg startTime final script now' of
                                        (out, fin, reqs, seen) \<Rightarrow>
                                          (out, fin, GetTask taskId # reqs, called @ seen)))))))"

record WaitRun =
  outcome :: "(error + TaskResult) option"
  manager :: TaskStatusManager
  finishedAt :: nat
  requests :: "request list"
  notified :: "Task list"

text \<open>
  \<open>waitForTask(client, taskId, options)\<close> on a client whose \<open>onTaskStatus\<close> is
  \<open>taskStatusManager.subscribe\<close>, as in \<open>DedalusMCPClient\<close>. The subscription is undone
  before the early abort and by the \<open>finally\<close> block; while the loop has not exited it
  stays.
\<close>

definition waitForTask ::
  "TaskStatusManager \<Rightarrow> nat \<Rightarrow> TaskId \<Rightarrow> WaitForTaskOptions \<Rightarrow> poll list \<Rightarrow>
   error + TaskResult \<Rightarrow> WaitRun" where
  "waitForTask mgr now taskId opts script final =
     (let interval = (case pollInterval opts of None \<Rightarrow> 1000 | Some i \<Rightarrow> i);
          startTime = now;
          mgr1 = (case onStatus opts of
                    Some cb \<Rightarrow> snd (subscribe mgr taskId cb) | None \<Rightarrow> mgr);
          cleaned = (case onStatus opts of
                       Some cb \<Rightarrow> unsubscribe mgr1 (fst (subscribe mgr taskId cb))
                     | None \<Rightarrow> mgr1)
      in if signal_aborted (signal opts) now
         then \<lparr>outcome = Some (Inl (TaskAbortedError taskId)), manager = cleaned,
               finishedAt = now, requests = [], notified = []\<rparr>
         else (case poll_loop taskId interval (timeout opts) (onStatus opts) (signal opts)
                      startTime final script now of
                 (out, fin, reqs, seen) \<Rightarrow>
                   \<lparr>outcome = out, manager = (if out = None then mgr1 else cleaned),
                    finishedAt = fin, requests = reqs, notified = seen\<rparr>))"

section \<open>mcp-integration.ts: MCPClientManager\<close>

record MCPServerConfig =
  command :: "string option"
  args :: "string list option"
  env :: "(string \<times> string) list option"
  cwd :: "string option"
  url :: "string option"
  headers :: "(string \<times> string) list option"

text \<open>
  The options object that \<open>createClient\<close> builds and passes to \<open>DedalusMCPClient.fromHTTP\<close>
  or \<open>fromStdio\<close>; the first field is the spread \<open>defaultClientOptions\<close>.
\<close>

datatype TransportOptions =
    HTTPTransportOptions Json string "(string \<times> string) list option"
  | StdioTransportOptions Json string "string list option" "(string \<times> string) list option" "string option"

record 'c MCPClientManager =
  clients :: "(string \<times> 'c) list"
  defaultClientOptions :: Json

text \<open>
  \<open>createClient(config)\<close>. \<open>connect\<close> stands for the two factory methods: given the
  options, the connected client or the error it throws. The second component lists the
  connections constructed.
\<close>

definition createClient ::
  "(TransportOptions \<Rightarrow> error + 'c) \<Rightarrow> Json \<Rightarrow> MCPServerConfig \<Rightarrow> (error + 'c) \<times> TransportOptions list" where
  "createClient connect dflt config =
     (case (if truthy (url config) then url config else None) of
        Some u \<Rightarrow>
          (connect (HTTPTransportOptions dflt u (headers config)),
           [HTTPTransportOptions dflt u (headers config)])
      | None \<Rightarrow>
         (case (if truthy (command config) then command config else None) of
            Some cmd \<Rightarrow>
              (connect (StdioTransportOptions dflt cmd (args config) (env config) (cwd config)),
               [StdioTransportOptions dflt cmd (args config) (env config) (cwd config)])
          | None \<Rightarrow>
              (Inl (Error (''Server config must have either '' @ [CHR 0x22] @ ''command'' @ [CHR 0x22]
                           @ '' or '' @ [CHR 0x22] @ ''url'' @ [CHR 0x22])), [])))"

definition addServer ::
  "(TransportOptions \<Rightarrow> error + 'c) \<Rightarrow> 'c MCPClientManager \<Rightarrow> string \<Rightarrow> MCPServerConfig \<Rightarrow>
   (error + 'c) \<times> 'c MCPClientManager \<times> TransportOptions list" where
  "addServer connect m nm config =
     (if has (clients m) nm
      then (Inl (Error (''Server '' @ [CHR 0x22] @ nm @ [CHR 0x22] @ '' already exists'')), m, [])
      else (case createClient connect (defaultClientOptions m) config of
              (Inl e, made) \<Rightarrow> (Inl e, m, made)
            | (Inr c, made) \<Rightarrow> (Inr c, m\<lparr>clients := AList.update nm c (clients m)\<rparr>, made)))"

text \<open>\<open>name.split('.')\<close> and \<open>parts.join('.')\<close>.\<close>

fun split_dot :: "string \<Rightarrow> string list" where
  "split_dot [] = [[]]"
| "split_dot (c # cs) =
     (if c = CHR ''.'' then [] # split_dot cs
      else (case split_dot cs of p # ps \<Rightarrow> (c # p) # ps | [] \<Rightarrow> [[c]]))"

fun join_dot :: "string list \<Rightarrow> string" where
  "join_dot [] = []"
| "join_dot [p] = p"
| "join_dot (p # q # ps) = p @ ''.'' @ join_dot (q # ps)"

text \<open>
  \<open>callTool(name, args)\<close> of the manager. \<open>invoke\<close> stands for the chosen client's
  \<open>callTool\<close>; the second component lists the calls made on clients.
\<close>

definition callTool ::
  "('c \<Rightarrow> string \<Rightarrow> Json option \<Rightarrow> error + CallToolResult) \<Rightarrow> 'c MCPClientManager \<Rightarrow> string \<Rightarrow>
   Json option \<Rightarrow> (error + CallToolResult) \<times> ('c \<times> string \<times> Json option) list" where
  "callTool invoke m nm arguments =
     (case split_dot nm of
        [] \<Rightarrow> (Inl (Error (''Invalid tool name: '' @ nm)), [])
      | serverName # toolNameParts \<Rightarrow>
          (let toolName = join_dot toolNameParts
           in if serverName = [] \<or> toolNameParts = []
              then (Inl (Error (''Invalid tool name: '' @ nm)), [])
              else (case map_of (clients m) serverName of
                      None \<Rightarrow> (Inl (Error (''Unknown server: '' @ serverName)), [])
                    | Some cl \<Rightarrow> (invoke cl toolName arguments, [(cl, toolName, arguments)]))))"

section \<open>mcp-integration.ts: aggregateMCPTools\<close>

record Implementation =
  name_impl :: string
  version :: string

record 'c MCPToolInfo =
  tool :: Tool
  client :: 'c
  serverName :: string
  originalName :: string

text \<open>The body of the inner loop: the key and the value of one \<open>toolMap.set\<close>.\<close>

definition toolEntry :: "'c \<Rightarrow> string \<Rightarrow> Tool \<Rightarrow> string \<times> 'c MCPToolInfo" where
  "toolEntry cl sn t =
     (sn @ ''.'' @ name t,
      \<lparr>tool = t\<lparr>name := sn @ ''.'' @ name t,
                description := Some (''['' @ sn @ ''] '' @ (case description t of None \<Rightarrow> [] | Some d \<Rightarrow> d))\<rparr>,
       client = cl, serverName = sn, originalName = name t\<rparr>)"

text \<open>\<open>serverInfo?.name ?? 'unknown'\<close>.\<close>

definition namespaceOf :: "Implementation option \<Rightarrow> string" where
  "namespaceOf serverInfo = (case serverInfo of None \<Rightarrow> ''unknown'' | Some i \<Rightarrow> name_impl i)"

text \<open>
  The outer loop. \<open>getServerInfo\<close> and \<open>listAllTools\<close> are the two methods the function
  calls on each client; a listing that throws ends the function with that error.
\<close>

fun aggregate_loop ::
  "('c \<Rightarrow> Implementation option) \<Rightarrow> ('c \<Rightarrow> error + Tool list) \<Rightarrow> 'c list \<Rightarrow>
   (string \<times> 'c MCPToolInfo) list \<Rightarrow> error + (string \<times> 'c MCPToolInfo) list" where
  "aggregate_loop getServerInfo listTools [] toolMap = Inr toolMap"
| "aggregate_loop getServerInfo listTools (cl # cls) toolMap =
     (case listTools cl of
        Inl e \<Rightarrow> Inl e
      | Inr tools \<Rightarrow>
          aggregate_loop getServerInfo listTools cls
            (fold (\<lambda>t tm. AList.update (fst (toolEntry cl (namespaceOf (getServerInfo cl)) t))
                                        (snd (toolEntry cl (namespaceOf (getServerInfo cl)) t)) tm)
                  tools toolMap))"

definition aggregateMCPTools ::
  "('c \<Rightarrow> Implementation option) \<Rightarrow> ('c \<Rightarrow> error + Tool list) \<Rightarrow> 'c list \<Rightarrow>
   error + (string \<times> 'c MCPToolInfo) list" where
  "aggregateMCPTools getServerInfo listTools cls = aggregate_loop getServerInfo listTools cls []"

text \<open>
  The writes \<open>toolMap.set(key, info)\<close> that \<open>aggregateMCPTools\<close> makes, in order, when
  each client \<open>cl\<close> lists the tools \<open>tools cl\<close>.
\<close>

definition toolEntries ::
  "('c \<Rightarrow> Implementation option) \<Rightarrow> ('c \<Rightarrow> Tool list) \<Rightarrow> 'c list \<Rightarrow> (string \<times> 'c MCPToolInfo) list" where
  "toolEntries getServerInfo tools cls =
     concat (map (\<lambda>cl. map (toolEntry cl (namespaceOf (getServerInfo cl))) (tools cl)) cls)"

section \<open>Fixtures for concrete runs\<close>

text \<open>A client whose \<open>callTool\<close> answers with the tool name it was given.\<close>

definition echoTool :: "nat \<Rightarrow> string \<Rightarrow> Json option \<Rightarrow> error + CallToolResult" where
  "echoTool cl toolName a =
     Inr \<lparr>content = [toolName], isError = None, structuredContent = None, meta = None\<rparr>"

text \<open>The server configuration \<open>{}\<close>.\<close>

definition emptyConfig :: MCPServerConfig where
  "emptyConfig = \<lparr>command = None, args = None, env = None, cwd = None, url = None, headers = None\<rparr>"

definition runningTask :: "TaskId \<Rightarrow> Task" where
  "runningTask taskId = \<lparr>id_task = taskId, state = running, message = None, progress = None\<rparr>"

definition completedTask :: "TaskId \<Rightarrow> Task" where
  "completedTask taskId = \<lparr>id_task = taskId, state = completed, message = None, progress = None\<rparr>"

definition emptyResult :: "TaskId \<Rightarrow> TaskResult" where
  "emptyResult taskId = \<lparr>id_result = taskId, result = None, error_result = None\<rparr>"

definition runTool :: Tool where
  "runTool = \<lparr>name = ''run'', description = None, inputSchema = ''{}''\<rparr>"

definition listsRun :: "nat \<Rightarrow> error + Tool list" where
  "listsRun cl = Inr [runTool]"

definition noServerInfo :: "nat \<Rightarrow> Implementation option" where
  "noServerInfo cl = None"

definition polling :: WaitForTaskOptions where
  "polling = \<lparr>pollInterval = Some 10, timeout = Some 25, onStatus = Some 7, signal = None\<rparr>"

definition answers :: "Task \<Rightarrow> poll" where
  "answers task = \<lparr>latency = 0, reply = Inr task, thrown = None\<rparr>"

section \<open>Properties of the CancellationManager\<close>

lemma not_has_delete: "\<not> has (AList.delete k m) k"
  by (simp add: has_def delete_conv')

lemma delete_absent: "map_of m k = None \<Longrightarrow> AList.delete k m = m"
  by (induction m) (auto split: if_splits)

lemma cancel_pending:
  "map_of (pendingRequests m) rid = Some c \<Longrightarrow>
   cancel m rid = (True, m\<lparr>aborted := (aborted m)(c := True),
                           pendingRequests := AList.delete rid (pendingRequests m)\<rparr>)"
  by (simp add: cancel_def)

lemma cancel_absent: "\<not> isPending m rid \<Longrightarrow> cancel m rid = (False, m)"
  by (simp add: cancel_def isPending_def has_def)

lemma not_pending_complete: "\<not> isPending (complete m rid) rid"
  by (simp add: isPending_def complete_def not_has_delete)

lemma not_pending_cancel: "\<not> isPending (snd (cancel m rid)) rid"
  by (cases "map_of (pendingRequests m) rid")
     (simp_all add: cancel_def isPending_def has_def delete_conv')

lemma pending_create: "isPending (snd (create m rid)) rid"
  by (simp add: create_def isPending_def has_def Let_def update_conv')

text \<open>
  Claim C1. After \<open>create(id)\<close> the entry is pending, and at most one of \<open>cancel(id)\<close> and
  \<open>complete(id)\<close> wins: \<open>cancel(id)\<close> returns \<open>true\<close> exactly when the entry was still
  pending, and then it aborts that entry's controller and removes the entry;
  \<open>cancel(id)\<close> after \<open>complete(id)\<close>, or after an earlier \<open>cancel(id)\<close>, returns \<open>false\<close>
  and leaves the manager as it was; \<open>complete(id)\<close> after a winning \<open>cancel(id)\<close> changes
  nothing either.
\<close>

theorem cancel_complete_at_most_once:
  "isPending (snd (create m rid)) rid
   \<and> fst (cancel m rid) = isPending m rid
   \<and> (\<forall>c. map_of (pendingRequests m) rid = Some c \<longrightarrow>
         aborted (snd (cancel m rid)) c
         \<and> \<not> isPending (snd (cancel m rid)) rid
         \<and> snd (cancel m rid) = (complete m rid)\<lparr>aborted := (aborted m)(c := True)\<rparr>)
   \<and> cancel (complete m rid) rid = (False, complete m rid)
   \<and> cancel (snd (cancel m rid)) rid = (False, snd (cancel m rid))
   \<and> complete (snd (cancel m rid)) rid = snd (cancel m rid)"
proof (intro conjI allI impI)
  show "isPending (snd (create m rid)) rid" by (rule pending_create)
  show "fst (cancel m rid) = isPending m rid"
    by (cases "map_of (pendingRequests m) rid") (simp_all add: cancel_def isPending_def has_def)
  show "cancel (complete m rid) rid = (False, complete m rid)"
    by (rule cancel_absent) (rule not_pending_complete)
  show "cancel (snd (cancel m rid)) rid = (False, snd (cancel m rid))"
    by (rule cancel_absent) (rule not_pending_cancel)
  show "complete (snd (cancel m rid)) rid = snd (cancel m rid)"
    by (cases "map_of (pendingRequests m) rid")
       (simp_all add: cancel_def complete_def delete_idem delete_absent)
next
  fix c assume c: "map_of (pendingRequests m) rid = Some c"
  show "aborted (snd (cancel m rid)) c" by (simp add: cancel_pending [OF c])
  show "\<not> isPending (snd (cancel m rid)) rid" by (rule not_pending_cancel)
  show "snd (cancel m rid) = (complete m rid)\<lparr>aborted := (aborted m)(c := True)\<rparr>"
    by (simp add: cancel_pending [OF c] complete_def)
qed

theorem cancel_complete_at_most_once_witness:
  "cancel (snd (create newCancellationManager (RidString ''req-1''))) (RidString ''req-1'')
     = (True, newCancellationManager\<lparr>aborted := (\<lambda>_. False)(0 := True), fresh := 1\<rparr>)
   \<and> fst (cancel (complete (snd (create newCancellationManager (RidString ''req-1'')))
                    (RidString ''req-1'')) (RidString ''req-1'')) = False"
  using cancel_complete_at_most_once
          [of "snd (create newCancellationManager (RidString ''req-1''))" "RidString ''req-1''"]
  by (simp add: create_def cancel_def complete_def newCancellationManager_def isPending_def has_def)

section \<open>Properties of the TaskStatusManager\<close>

lemma removeAll_Nil: "(removeAll x xs = []) = (set xs \<subseteq> {x})"
  by (induction xs) auto

lemma set_sets_unsubscribe:
  "set (sets (unsubscribe m u) r)
     = (if r = u_callbacks u then set (sets m r) - {u_callback u} else set (sets m r))"
  by (auto simp: unsubscribe_def Let_def removeAll_Nil)

lemma unsubscribe_keeps_other_members:
  "c \<noteq> u_callback u \<Longrightarrow> (c \<in> set (sets (unsubscribe m u) r)) = (c \<in> set (sets m r))"
  by (simp add: set_sets_unsubscribe)

lemma unsubscribe_removes_member:
  "u_callback u \<notin> set (sets (unsubscribe m u) (u_callbacks u))"
  by (simp add: unsubscribe_def Let_def)

text \<open>
  Claim C6. The claim says that calling the closure returned by \<open>subscribe\<close>, once or
  repeatedly and interleaved with other calls for the same task, never stops delivery
  to another registered subscription, and that the task's entry is removed exactly when
  its set becomes empty. The code does not do this: the closure keeps the set it was
  given and removes the task's current entry whenever that old set is empty. Subscribe
  callback 1, unsubscribe it, subscribe callback 2 (a new set), call the first closure
  again: the entry of the task is removed although the set of callback 2 is not empty,
  and \<open>handleStatus\<close> no longer reaches callback 2.
\<close>

theorem stale_unsubscribe_removes_later_subscription:
  "(let (u1, m1) = subscribe newTaskStatusManager ''task-1'' 1;
        m2 = unsubscribe m1 u1;
        (u2, m3) = subscribe m2 ''task-1'' 2;
        m4 = unsubscribe m3 u1
    in handleStatus m3 (runningTask ''task-1'') = [2] \<and> hasSubscribers m3 ''task-1''
       \<and> handleStatus m4 (runningTask ''task-1'') = [] \<and> \<not> hasSubscribers m4 ''task-1''
       \<and> sets m4 (u_callbacks u2) = [2] \<and> callbacks m4 = [])"
  by (simp add: subscribe_def unsubscribe_def newTaskStatusManager_def handleStatus_def
        hasSubscribers_def set_add_def runningTask_def Let_def)

section \<open>Properties of waitForTask: the kind of the abort failure\<close>

lemma waitForTask_aborted_at_entry:
  "signal_aborted (signal opts) now \<Longrightarrow>
   outcome (waitForTask mgr now taskId opts script final) = Some (Inl (TaskAbortedError taskId))
   \<and> requests (waitForTask mgr now taskId opts script final) = []"
  by (simp add: waitForTask_def Let_def)

lemma poll_loop_aborted_at_top:
  "signal_aborted sg now \<Longrightarrow>
   poll_loop taskId interval tmo cb sg startTime final script now
     = (Some (Inl (TaskAbortedError taskId)), now, [], [])"
  by (cases script) simp_all

text \<open>
  Claim C4. The claim says that every failure of \<open>waitForTask\<close> caused by its signal is a
  \<open>TaskAbortedError\<close>, also when the signal fires while the sleep between two polls is
  pending. The code does not do this: \<open>sleep\<close> rejects with a plain \<open>Error('Aborted')\<close>,
  which leaves \<open>waitForTask\<close> unchanged. With a poll interval of 100 ms, a task that is
  \<open>running\<close> and a signal that fires after 15 ms, the wait ends at 15 ms (the sleep does
  end early) with \<open>Error('Aborted')\<close>.
\<close>

theorem waitForTask_abort_during_sleep_is_plain_error:
  "(let r = waitForTask newTaskStatusManager 0 ''task-1''
              \<lparr>pollInterval = Some 100, timeout = None, onStatus = None, signal = Some (Some 15)\<rparr>
              [\<lparr>latency = 0, reply = Inr (runningTask ''task-1''), thrown = None\<rparr>]
              (Inr (emptyResult ''task-1''))
    in outcome r = Some (Inl (Error ''Aborted''))
       \<and> outcome r \<noteq> Some (Inl (TaskAbortedError ''task-1''))
       \<and> finishedAt r = 15 \<and> requests r = [GetTask ''task-1''])"
  by (simp add: waitForTask_def sleep_def signal_aborted_def timeoutExceeded_def terminal_def
        runningTask_def Let_def)

section \<open>Properties of the client\<close>

lemma dec_0: "dec 0 = ''0''"
  by (simp add: dec.simps digit_def)

lemma rejected_before_try:
  assumes "\<not> connected c"
  shows "promise (fst (callToolCancellable c now nm a))
           = Rejected (MCPConnectionError ''Not connected to MCP server. Call connect() first.'')"
    and "isPending (cancellationManager (snd (callToolCancellable c now nm a)))
           (requestId (fst (callToolCancellable c now nm a)))"
    and "sent (snd (callToolCancellable c now nm a)) = sent c"
  using assms
  by (simp_all add: callToolCancellable_def generateRequestId_def create_def ensureConnected_def
        isPending_def has_def Let_def update_conv')

lemma dispatched_when_connected:
  assumes "connected c"
  shows "promise (fst (callToolCancellable c now nm a)) = Pending"
    and "isPending (cancellationManager (snd (callToolCancellable c now nm a)))
           (requestId (fst (callToolCancellable c now nm a)))"
    and "sent (snd (callToolCancellable c now nm a)) = sent c @ [CallToolRequest nm a]"
  using assms
  by (simp_all add: callToolCancellable_def generateRequestId_def create_def ensureConnected_def
        callTool_dispatch_def isPending_def has_def Let_def update_conv')

lemma settle_completes:
  "\<not> isPending (cancellationManager (snd (callToolCancellable_settle c rid res))) rid"
  by (cases res) (simp_all add: callToolCancellable_settle_def not_pending_complete)

lemma cancel_notifies_iff_pending:
  "sent (callToolCancellable_cancel c rid)
     = (if isPending (cancellationManager c) rid
        then sent c @ [CancelledNotification rid ''User cancelled''] else sent c)"
  "\<not> isPending (cancellationManager (callToolCancellable_cancel c rid)) rid"
  by (cases "map_of (pendingRequests (cancellationManager c)) rid";
      simp add: callToolCancellable_cancel_def cancel_def isPending_def has_def delete_conv')+

text \<open>
  Claim C2. The claim says that once the promise of \<open>callToolCancellable\<close> has settled,
  also by rejecting with the not-connected error, the request is no longer pending, so
  that \<open>cancel()\<close> sends no notification for it. The code does not do this on a client that
  is not connected: \<open>ensureConnected()\<close> throws before the \<open>try\<close>, so \<open>complete\<close> is never
  called. On a client that has been closed, the promise is rejected with the
  not-connected error, nothing is sent, the request stays pending, and a later \<open>cancel()\<close>
  sends a cancellation notification for the call that has already failed.
\<close>

theorem callToolCancellable_not_connected_stays_pending:
  "(let c = snd (close connectedClient None);
        (op, c') = callToolCancellable c 0 ''t'' None
    in promise op = Rejected (MCPConnectionError ''Not connected to MCP server. Call connect() first.'')
       \<and> requestId op = RidString ''req-0-0''
       \<and> isPending (cancellationManager c') (requestId op)
       \<and> sent c' = [TransportClose]
       \<and> sent (callToolCancellable_cancel c' (requestId op))
           = [TransportClose, CancelledNotification (RidString ''req-0-0'') ''User cancelled''])"
  by (simp add: close_def connectedClient_def callToolCancellable_def generateRequestId_def
        create_def ensureConnected_def isPending_def has_def Let_def dec_0
        callToolCancellable_cancel_def cancel_def cancelAll_def clear_pt_def clear_tsm_def
        newCancellationManager_def newProgressTracker_def newTaskStatusManager_def)

lemma fold_abort: "fold (\<lambda>controller a. a(controller := True)) cs a ctl = (ctl \<in> set cs \<or> a ctl)"
  by (induction cs arbitrary: a) auto

text \<open>
  Claim C5. \<open>close()\<close> on a connected client hands the close to the transport, leaves the
  client disconnected and empties the three registries, aborting the controller of every
  pending request, whether the transport's close throws or not (the error, if any, is
  what \<open>close()\<close> then throws); a second \<open>close()\<close>, made after the first has finished,
  returns normally and changes nothing.
\<close>

theorem close_idempotent:
  "connected c \<Longrightarrow>
     sent (snd (close c ce)) = sent c @ [TransportClose]
   \<and> \<not> connected (snd (close c ce))
   \<and> callbacks_pt (progressTracker (snd (close c ce))) = []
   \<and> pendingRequests (cancellationManager (snd (close c ce))) = []
   \<and> (\<forall>rid ctl. map_of (pendingRequests (cancellationManager c)) rid = Some ctl \<longrightarrow>
          aborted (cancellationManager (snd (close c ce))) ctl)
   \<and> callbacks (taskStatusManager (snd (close c ce))) = []
   \<and> fst (close c ce) = (case ce of Some e \<Rightarrow> Inl e | None \<Rightarrow> Inr ())
   \<and> close (snd (close c ce)) ce' = (Inr (), snd (close c ce))"
proof -
  assume conn: "connected c"
  have ab: "aborted (cancellationManager (snd (close c ce))) ctl"
    if "map_of (pendingRequests (cancellationManager c)) rid = Some ctl" for rid ctl
  proof -
    from that have "ctl \<in> set (map snd (pendingRequests (cancellationManager c)))"
      by (force dest: map_of_SomeD)
    with conn show ?thesis
      by (cases ce) (simp_all add: close_def Let_def cancelAll_def fold_abort)
  qed
  from conn have rest:
    "sent (snd (close c ce)) = sent c @ [TransportClose]"
    "\<not> connected (snd (close c ce))"
    "callbacks_pt (progressTracker (snd (close c ce))) = []"
    "pendingRequests (cancellationManager (snd (close c ce))) = []"
    "callbacks (taskStatusManager (snd (close c ce))) = []"
    "fst (close c ce) = (case ce of Some e \<Rightarrow> Inl e | None \<Rightarrow> Inr ())"
    by (cases ce; simp add: close_def Let_def cancelAll_def clear_pt_def clear_tsm_def)+
  from rest(2) have again: "close (snd (close c ce)) ce' = (Inr (), snd (close c ce))"
    by (simp add: close_def)
  from ab rest again show ?thesis by blast
qed

theorem close_idempotent_witness:
  "connected (snd (callToolCancellable connectedClient 0 ''t'' None))
   \<and> pendingRequests (cancellationManager (snd (callToolCancellable connectedClient 0 ''t'' None)))
       = [(RidString ''req-0-0'', 0)]
   \<and> fst (close (snd (callToolCancellable connectedClient 0 ''t'' None)) (Some (Error ''boom'')))
       = Inl (Error ''boom'')
   \<and> \<not> connected (snd (close (snd (callToolCancellable connectedClient 0 ''t'' None)) (Some (Error ''boom''))))
   \<and> aborted (cancellationManager
        (snd (close (snd (callToolCancellable connectedClient 0 ''t'' None)) (Some (Error ''boom''))))) 0
   \<and> fst (close (snd (close (snd (callToolCancellable connectedClient 0 ''t'' None)) (Some (Error ''boom''))))
             (Some (Error ''boom''))) = Inr ()"
  using close_idempotent [of "snd (callToolCancellable connectedClient 0 ''t'' None)"
          "Some (Error ''boom'')" "Some (Error ''boom'')"]
  by (simp add: callToolCancellable_def connectedClient_def generateRequestId_def create_def
        ensureConnected_def callTool_dispatch_def Let_def dec_0 newCancellationManager_def)

section \<open>Properties of the MCPClientManager\<close>

lemma createClient_neither:
  "\<not> truthy (command config) \<Longrightarrow> \<not> truthy (url config) \<Longrightarrow>
   createClient connect dflt config =
     (Inl (Error (''Server config must have either '' @ [CHR 0x22] @ ''command'' @ [CHR 0x22]
                  @ '' or '' @ [CHR 0x22] @ ''url'' @ [CHR 0x22])), [])"
  by (simp add: createClient_def)

lemma createClient_url:
  "url config = Some u \<Longrightarrow> u \<noteq> [] \<Longrightarrow>
   createClient connect dflt config =
     (connect (HTTPTransportOptions dflt u (headers config)),
      [HTTPTransportOptions dflt u (headers config)])"
  by (simp add: createClient_def truthy_def)

text \<open>
  Claim C3, as stated, fails: a configuration with both \<open>command\<close> and \<open>url\<close> is accepted,
  \<open>createClient\<close> tests \<open>url\<close> first and the HTTP connection is constructed and
  registered.
\<close>

theorem addServer_both_shapes_counterexample:
  "addServer Inr \<lparr>clients = [], defaultClientOptions = ''{}''\<rparr> ''both''
     \<lparr>command = Some ''npx'', args = None, env = None, cwd = None,
      url = Some ''http://localhost:3000/mcp'', headers = None\<rparr>
   = (Inr (HTTPTransportOptions ''{}'' ''http://localhost:3000/mcp'' None),
      \<lparr>clients = [(''both'', HTTPTransportOptions ''{}'' ''http://localhost:3000/mcp'' None)],
       defaultClientOptions = ''{}''\<rparr>,
      [HTTPTransportOptions ''{}'' ''http://localhost:3000/mcp'' None])"
  by (simp add: addServer_def createClient_def has_def truthy_def)

text \<open>
  Claim C3, amended. \<open>addServer(name, config)\<close> fails with the error
  \<open>Server "name" already exists\<close> when the name is registered, and with the
  configuration error when the name is new and the configuration has neither \<open>command\<close>
  nor \<open>url\<close> (absent or empty); in both cases no connection is constructed and the
  registry is unchanged. A configuration with a \<open>url\<close> is not a configuration error,
  whether it has a \<open>command\<close> or not: the HTTP connection of the \<open>url\<close> is the one
  constructed, and the result is the result of connecting it.
\<close>

theorem addServer_failures:
  "(has (clients m) nm \<longrightarrow>
      addServer connect m nm config
        = (Inl (Error (''Server '' @ [CHR 0x22] @ nm @ [CHR 0x22] @ '' already exists'')), m, []))
   \<and> (\<not> has (clients m) nm \<and> \<not> truthy (command config) \<and> \<not> truthy (url config) \<longrightarrow>
      addServer connect m nm config
        = (Inl (Error (''Server config must have either '' @ [CHR 0x22] @ ''command'' @ [CHR 0x22]
                       @ '' or '' @ [CHR 0x22] @ ''url'' @ [CHR 0x22])), m, []))
   \<and> (\<not> has (clients m) nm \<and> url config = Some u \<and> u \<noteq> [] \<longrightarrow>
      fst (addServer connect m nm config)
        = connect (HTTPTransportOptions (defaultClientOptions m) u (headers config))
      \<and> snd (snd (addServer connect m nm config))
          = [HTTPTransportOptions (defaultClientOptions m) u (headers config)])"
proof (intro conjI impI)
  assume "has (clients m) nm"
  then show "addServer connect m nm config
        = (Inl (Error (''Server '' @ [CHR 0x22] @ nm @ [CHR 0x22] @ '' already exists'')), m, [])"
    by (simp add: addServer_def)
next
  assume "\<not> has (clients m) nm \<and> \<not> truthy (command config) \<and> \<not> truthy (url config)"
  then show "addServer connect m nm config
        = (Inl (Error (''Server config must have either '' @ [CHR 0x22] @ ''command'' @ [CHR 0x22]
                       @ '' or '' @ [CHR 0x22] @ ''url'' @ [CHR 0x22])), m, [])"
    by (simp add: addServer_def createClient_neither)
next
  assume a: "\<not> has (clients m) nm \<and> url config = Some u \<and> u \<noteq> []"
  then have cc: "createClient connect (defaultClientOptions m) config =
     (connect (HTTPTransportOptions (defaultClientOptions m) u (headers config)),
      [HTTPTransportOptions (defaultClientOptions m) u (headers config)])"
    by (simp add: createClient_url)
  from a cc show "fst (addServer connect m nm config)
      = connect (HTTPTransportOptions (defaultClientOptions m) u (headers config))"
    by (cases "connect (HTTPTransportOptions (defaultClientOptions m) u (headers config))")
       (simp_all add: addServer_def)
  from a cc show "snd (snd (addServer connect m nm config))
          = [HTTPTransportOptions (defaultClientOptions m) u (headers config)]"
    by (cases "connect (HTTPTransportOptions (defaultClientOptions m) u (headers config))")
       (simp_all add: addServer_def)
qed

theorem addServer_failures_witness:
  "addServer Inr \<lparr>clients = [], defaultClientOptions = ''{}''\<rparr> ''test'' emptyConfig
     = (Inl (Error (''Server config must have either '' @ [CHR 0x22] @ ''command'' @ [CHR 0x22]
                       @ '' or '' @ [CHR 0x22] @ ''url'' @ [CHR 0x22])),
        \<lparr>clients = [], defaultClientOptions = ''{}''\<rparr>, [])
   \<and> addServer Inr \<lparr>clients = [(''test'', StdioTransportOptions ''{}'' ''test-cmd'' None None None)],
                     defaultClientOptions = ''{}''\<rparr> ''test'' (emptyConfig\<lparr>command := Some ''test2''\<rparr>)
     = (Inl (Error (''Server '' @ [CHR 0x22] @ ''test'' @ [CHR 0x22] @ '' already exists'')),
        \<lparr>clients = [(''test'', StdioTransportOptions ''{}'' ''test-cmd'' None None None)],
         defaultClientOptions = ''{}''\<rparr>, [])
   \<and> snd (snd (addServer Inr \<lparr>clients = [], defaultClientOptions = ''{}''\<rparr> ''api''
                  (emptyConfig\<lparr>command := Some ''npx'', url := Some ''http://h/mcp''\<rparr>)))
     = [HTTPTransportOptions ''{}'' ''http://h/mcp'' None]"
  using addServer_failures [where m = "\<lparr>clients = [], defaultClientOptions = ''{}''\<rparr>" and nm = "''test''"
          and config = emptyConfig and u = "''x''" and connect = Inr]
        addServer_failures [where m = "\<lparr>clients = [(''test'', StdioTransportOptions ''{}'' ''test-cmd'' None None None)],
                     defaultClientOptions = ''{}''\<rparr>" and nm = "''test''"
          and config = "emptyConfig\<lparr>command := Some ''test2''\<rparr>" and u = "''x''" and connect = Inr]
        addServer_failures [where m = "\<lparr>clients = [], defaultClientOptions = ''{}''\<rparr>" and nm = "''api''"
          and config = "emptyConfig\<lparr>command := Some ''npx'', url := Some ''http://h/mcp''\<rparr>"
          and u = "''http://h/mcp''" and connect = Inr]
  by (simp add: has_def truthy_def emptyConfig_def)

subsection \<open>Routing of namespaced tool names\<close>

lemma split_dot_Cons: "\<exists>p ps. split_dot s = p # ps"
  by (induction s) (auto split: list.splits)

lemma split_dot_first:
  "\<exists>ps. split_dot s = takeWhile (\<lambda>c. c \<noteq> CHR ''.'') s # ps"
proof (induction s)
  case Nil
  show ?case by simp
next
  case (Cons c cs)
  then obtain ps where "split_dot cs = takeWhile (\<lambda>c. c \<noteq> CHR ''.'') cs # ps" by blast
  then show ?case by simp
qed

lemma split_dot_prefix:
  "CHR ''.'' \<notin> set s \<Longrightarrow> split_dot (s @ CHR ''.'' # r) = s # split_dot r"
  by (induction s) auto

lemma join_dot_Cons_Cons: "join_dot ((c # p) # ps) = c # join_dot (p # ps)"
  by (cases ps) simp_all

lemma join_dot_split_dot: "join_dot (split_dot r) = r"
proof (induction r)
  case Nil
  show ?case by simp
next
  case (Cons c cs)
  obtain p ps where sp: "split_dot cs = p # ps" using split_dot_Cons by blast
  with Cons show ?case by (simp add: join_dot_Cons_Cons)
qed

text \<open>
  Claim C7, as stated, fails when the registered name \<open>s\<close> itself contains a dot: the
  name is split at its first dot, which then lies inside \<open>s\<close>. With servers \<open>a\<close> and
  \<open>a.b\<close> registered, \<open>callTool('a.b.run')\<close> calls tool \<open>b.run\<close> on the client of \<open>a\<close>, not
  tool \<open>run\<close> on the client of \<open>a.b\<close>; with only \<open>a.b\<close> registered it fails with
  \<open>Unknown server: a\<close>.
\<close>

theorem callTool_dotted_server_counterexample:
  "callTool echoTool \<lparr>clients = [(''a'', 1), (''a.b'', 2)], defaultClientOptions = ''{}''\<rparr>
       ''a.b.run'' None
     = (Inr \<lparr>content = [''b.run''], isError = None, structuredContent = None, meta = None\<rparr>,
        [(1, ''b.run'', None)])
   \<and> callTool echoTool \<lparr>clients = [(''a.b'', 2)], defaultClientOptions = ''{}''\<rparr> ''a.b.run'' None
     = (Inl (Error ''Unknown server: a''), [])"
  by (simp add: callTool_def echoTool_def Let_def)

text \<open>
  Claim C7, amended. For every name \<open>s + "." + r\<close> where \<open>s\<close> is non-empty, contains no
  dot and is registered, \<open>callTool\<close> calls the client registered under \<open>s\<close>, once, with
  the remainder \<open>r\<close> as the tool name, whatever dots \<open>r\<close> contains, and returns what that
  call returns. For every name whose segment before the first dot is empty or is not a
  registered server name, \<open>callTool\<close> fails with an error and calls no client.
\<close>

theorem callTool_routes_on_first_dot:
  "(s \<noteq> [] \<and> CHR ''.'' \<notin> set s \<and> map_of (clients m) s = Some cl \<longrightarrow>
      callTool invoke m (s @ ''.'' @ r) a = (invoke cl r a, [(cl, r, a)]))
   \<and> (takeWhile (\<lambda>c. c \<noteq> CHR ''.'') nm = []
        \<or> map_of (clients m) (takeWhile (\<lambda>c. c \<noteq> CHR ''.'') nm) = None \<longrightarrow>
      (\<exists>msg. callTool invoke m nm a = (Inl (Error msg), [])))"
proof (intro conjI impI)
  assume h: "s \<noteq> [] \<and> CHR ''.'' \<notin> set s \<and> map_of (clients m) s = Some cl"
  obtain p ps where sp: "split_dot r = p # ps" using split_dot_Cons by blast
  from h have "split_dot (s @ ''.'' @ r) = s # split_dot r" by (simp add: split_dot_prefix)
  moreover have "join_dot (split_dot r) = r" by (rule join_dot_split_dot)
  ultimately show "callTool invoke m (s @ ''.'' @ r) a = (invoke cl r a, [(cl, r, a)])"
    using h sp by (simp add: callTool_def)
next
  assume h: "takeWhile (\<lambda>c. c \<noteq> CHR ''.'') nm = []
        \<or> map_of (clients m) (takeWhile (\<lambda>c. c \<noteq> CHR ''.'') nm) = None"
  obtain ps where sp: "split_dot nm = takeWhile (\<lambda>c. c \<noteq> CHR ''.'') nm # ps"
    using split_dot_first by blast
  with h show "\<exists>msg. callTool invoke m nm a = (Inl (Error msg), [])"
    by (auto simp: callTool_def Let_def)
qed

theorem callTool_routes_on_first_dot_witness:
  "callTool echoTool \<lparr>clients = [(''fs'', 1), (''git'', 2)], defaultClientOptions = ''{}''\<rparr>
       ''git.repo.log.v2'' None
     = (Inr \<lparr>content = [''repo.log.v2''], isError = None, structuredContent = None, meta = None\<rparr>,
        [(2, ''repo.log.v2'', None)])
   \<and> (\<exists>msg. callTool echoTool \<lparr>clients = [(''fs'', 1), (''git'', 2)], defaultClientOptions = ''{}''\<rparr>
               ''.hidden'' None = (Inl (Error msg), []))
   \<and> (\<exists>msg. callTool echoTool \<lparr>clients = [(''fs'', 1), (''git'', 2)], defaultClientOptions = ''{}''\<rparr>
               ''svn.log'' None = (Inl (Error msg), []))"
  using callTool_routes_on_first_dot [where s = "''git''" and r = "''repo.log.v2''" and cl = 2
          and m = "\<lparr>clients = [(''fs'', 1), (''git'', 2)], defaultClientOptions = ''{}''\<rparr>"
          and invoke = echoTool and a = None and nm = "''.hidden''"]
        callTool_routes_on_first_dot [where s = "''git''" and r = "''repo.log.v2''" and cl = 2
          and m = "\<lparr>clients = [(''fs'', 1), (''git'', 2)], defaultClientOptions = ''{}''\<rparr>"
          and invoke = echoTool and a = None and nm = "''svn.log''"]
  by (simp add: echoTool_def)

section \<open>Properties of the pagination helpers\<close>

lemma cursorParam_truthy: "truthy c \<Longrightarrow> cursorParam c = c"
  by (simp add: cursorParam_def)

lemma not_truthy_iff: "(\<not> truthy c) = (c = None \<or> c = Some [])"
  by (cases c) (simp_all add: truthy_def)

lemma listAll_pages:
  "connected c \<Longrightarrow>
   ps \<noteq> [] \<Longrightarrow> \<forall>p\<in>set (butlast ps). truthy (nextCursor p) \<Longrightarrow> \<not> truthy (nextCursor (last ps)) \<Longrightarrow>
   listAll c (map Inr (ps :: 'a ListResult list) @ extra) cursor acc
     = (Some (Inr (acc @ concat (map items ps))), cursorParam cursor # map nextCursor (butlast ps))"
proof (induction ps arbitrary: cursor acc)
  case Nil
  then show ?case by simp
next
  case (Cons p ps)
  show ?case
  proof (cases "ps = []")
    case True
    with Cons.prems show ?thesis by (simp add: ensureConnected_def)
  next
    case False
    with Cons.prems have t: "truthy (nextCursor p)"
      and b: "\<forall>q\<in>set (butlast ps). truthy (nextCursor q)"
      and l: "\<not> truthy (nextCursor (last ps))"
      and conn: "connected c"
      by simp_all
    from Cons.IH [OF conn False b l, of "nextCursor p" "acc @ items p"] t False conn
    show ?thesis by (simp add: cursorParam_truthy ensureConnected_def)
  qed
qed

lemma listAll_start:
  "connected c \<Longrightarrow>
   ps \<noteq> [] \<Longrightarrow> \<forall>p\<in>set (butlast ps). truthy (nextCursor p) \<Longrightarrow>
   nextCursor (last ps) = None \<or> nextCursor (last ps) = Some [] \<Longrightarrow>
   listAll c (map Inr (ps :: 'a ListResult list) @ extra) None []
     = (Some (Inr (concat (map items ps))), None # map nextCursor (butlast ps))"
proof -
  assume conn: "connected c" and ne: "ps \<noteq> []" and mid: "\<forall>p\<in>set (butlast ps). truthy (nextCursor p)"
    and fin: "nextCursor (last ps) = None \<or> nextCursor (last ps) = Some []"
  from fin have "\<not> truthy (nextCursor (last ps))" by (simp add: not_truthy_iff)
  from listAll_pages [OF conn ne mid this, of extra None "[]"] show ?thesis
    by (simp add: cursorParam_def truthy_def)
qed

text \<open>
  Claim C10. For \<open>listAllTools\<close>, \<open>listAllResources\<close> and \<open>listAllPrompts\<close> on a connected
  client: when the server answers with pages of which every one but the last carries a
  non-empty \<open>nextCursor\<close> and the last carries none or the empty string, the result is
  the concatenation of the items of all these pages in order, the last page included,
  and exactly one request per page is made (the first without a cursor, each following
  one with the cursor of the page before), whatever the server would have answered to
  further requests.
\<close>

theorem listAll_stops_at_absent_or_empty_cursor:
  "(connected c \<and> ts \<noteq> [] \<and> (\<forall>p\<in>set (butlast ts). truthy (nextCursor p))
      \<and> (nextCursor (last ts) = None \<or> nextCursor (last ts) = Some []) \<longrightarrow>
      listAllTools c (map Inr ts @ extra_t)
        = (Some (Inr (concat (map items ts))), None # map nextCursor (butlast ts)))
   \<and> (connected c \<and> rs \<noteq> [] \<and> (\<forall>p\<in>set (butlast rs). truthy (nextCursor p))
      \<and> (nextCursor (last rs) = None \<or> nextCursor (last rs) = Some []) \<longrightarrow>
      listAllResources c (map Inr rs @ extra_r)
        = (Some (Inr (concat (map items rs))), None # map nextCursor (butlast rs)))
   \<and> (connected c \<and> qs \<noteq> [] \<and> (\<forall>p\<in>set (butlast qs). truthy (nextCursor p))
      \<and> (nextCursor (last qs) = None \<or> nextCursor (last qs) = Some []) \<longrightarrow>
      listAllPrompts c (map Inr qs @ extra_p)
        = (Some (Inr (concat (map items qs))), None # map nextCursor (butlast qs)))"
  unfolding listAllTools_def listAllResources_def listAllPrompts_def
  by (intro conjI impI; elim conjE; rule listAll_start; assumption)

theorem listAll_stops_at_absent_or_empty_cursor_witness:
  "listAllTools connectedClient
     [Inr \<lparr>items = [\<lparr>name = ''a'', description = None, inputSchema = ''{}''\<rparr>], nextCursor = Some ''x''\<rparr>,
      Inr \<lparr>items = [\<lparr>name = ''b'', description = None, inputSchema = ''{}''\<rparr>], nextCursor = Some []\<rparr>,
      Inr \<lparr>items = [\<lparr>name = ''c'', description = None, inputSchema = ''{}''\<rparr>], nextCursor = None\<rparr>]
   = (Some (Inr [\<lparr>name = ''a'', description = None, inputSchema = ''{}''\<rparr>,
                 \<lparr>name = ''b'', description = None, inputSchema = ''{}''\<rparr>]),
      [None, Some ''x''])
   \<and> listAllResources connectedClient [Inr \<lparr>items = [\<lparr>uri = ''file:///a'', name_resource = ''a''\<rparr>], nextCursor = None\<rparr>]
   = (Some (Inr [\<lparr>uri = ''file:///a'', name_resource = ''a''\<rparr>]), [None])
   \<and> listAllPrompts connectedClient [Inr \<lparr>items = [\<lparr>name_prompt = ''p'', description_prompt = None\<rparr>], nextCursor = Some []\<rparr>]
   = (Some (Inr [\<lparr>name_prompt = ''p'', description_prompt = None\<rparr>]), [None])"
  using listAll_stops_at_absent_or_empty_cursor
    [where c = connectedClient and ts = "[\<lparr>items = [\<lparr>name = ''a'', description = None, inputSchema = ''{}''\<rparr>], nextCursor = Some ''x''\<rparr>,
                  \<lparr>items = [\<lparr>name = ''b'', description = None, inputSchema = ''{}''\<rparr>], nextCursor = Some []\<rparr>]"
       and extra_t = "[Inr \<lparr>items = [\<lparr>name = ''c'', description = None, inputSchema = ''{}''\<rparr>], nextCursor = None\<rparr>]"
       and rs = "[\<lparr>items = [\<lparr>uri = ''file:///a'', name_resource = ''a''\<rparr>], nextCursor = None\<rparr>]"
       and extra_r = "[]"
       and qs = "[\<lparr>items = [\<lparr>name_prompt = ''p'', description_prompt = None\<rparr>], nextCursor = Some []\<rparr>]"
       and extra_p = "[]"]
  by (simp add: truthy_def connectedClient_def)

section \<open>Properties of aggregateMCPTools\<close>

lemma map_of_fold_update:
  "map_of (fold (\<lambda>t tm. AList.update (fst (f t)) (snd (f t)) tm) ts tm0)
     = map_of (rev (map f ts) @ tm0)"
proof (induction ts arbitrary: tm0)
  case Nil
  show ?case by simp
next
  case (Cons t ts)
  show ?case
    by (simp add: Cons.IH map_of_append update_conv' map_add_upd_left fun_eq_iff map_add_def
             split: option.splits)
qed

lemma aggregate_loop_map_of:
  "\<forall>cl\<in>set cls. listTools cl = Inr (tools cl) \<Longrightarrow>
   \<exists>tm. aggregate_loop gi listTools cls tm0 = Inr tm
        \<and> map_of tm = map_of (rev (toolEntries gi tools cls) @ tm0)"
proof (induction cls arbitrary: tm0)
  case Nil
  show ?case by (simp add: toolEntries_def)
next
  case (Cons cl cls)
  from Cons.prems have here: "listTools cl = Inr (tools cl)"
    and rest: "\<forall>c\<in>set cls. listTools c = Inr (tools c)" by simp_all
  let ?tm1 = "fold (\<lambda>t tm. AList.update (fst (toolEntry cl (namespaceOf (gi cl)) t))
                                         (snd (toolEntry cl (namespaceOf (gi cl)) t)) tm)
                   (tools cl) tm0"
  from Cons.IH [OF rest, of ?tm1] obtain tm where
    tm: "aggregate_loop gi listTools cls ?tm1 = Inr tm"
        "map_of tm = map_of (rev (toolEntries gi tools cls) @ ?tm1)" by blast
  have "map_of ?tm1 = map_of (rev (map (toolEntry cl (namespaceOf (gi cl))) (tools cl)) @ tm0)"
    by (rule map_of_fold_update)
  with tm(2) have "map_of tm = map_of (rev (toolEntries gi tools (cl # cls)) @ tm0)"
    by (simp add: toolEntries_def map_of_append)
  with tm(1) here show ?case by simp
qed

lemma map_of_rev_last_wins:
  "k \<notin> fst ` set es2 \<Longrightarrow> map_of (rev (es1 @ (k, v) # es2)) k = Some v"
  by (simp add: map_of_append map_add_def map_of_eq_None_iff split: option.splits)
    (metis map_of_eq_None_iff set_rev option.distinct(1))

lemma toolEntries_member:
  "(k, info) \<in> set (toolEntries gi tools cls) \<Longrightarrow>
   \<exists>cl\<in>set cls. \<exists>t\<in>set (tools cl). (k, info) = toolEntry cl (namespaceOf (gi cl)) t"
  by (auto simp: toolEntries_def)

text \<open>
  Claim C9. When every client's listing succeeds, \<open>aggregateMCPTools\<close> returns a map and
  raises no error. Every entry's key is \<open>serverName + "." + originalName\<close>, where
  \<open>originalName\<close> is the name of a tool listed by the entry's client and \<open>serverName\<close> is
  the name that client reports, or \<open>unknown\<close> when it reports no server information;
  every listed tool has its key in the map; and for every key, of all the writes to that
  key (taken in the order of the clients in the input list, and of the tools in each
  listing) the last one is the entry the map holds.
\<close>

theorem aggregateMCPTools_last_write_wins:
  "\<forall>cl\<in>set cls. listTools cl = Inr (tools cl) \<Longrightarrow>
   \<exists>tm. aggregateMCPTools gi listTools cls = Inr tm
     \<and> (\<forall>k info. map_of tm k = Some info \<longrightarrow>
           k = serverName info @ ''.'' @ originalName info
           \<and> (\<exists>cl\<in>set cls. \<exists>t\<in>set (tools cl).
                 client info = cl \<and> originalName info = name t
                 \<and> serverName info = (case gi cl of None \<Rightarrow> ''unknown'' | Some i \<Rightarrow> name_impl i)))
     \<and> (\<forall>cl\<in>set cls. \<forall>t\<in>set (tools cl).
           has tm ((case gi cl of None \<Rightarrow> ''unknown'' | Some i \<Rightarrow> name_impl i) @ ''.'' @ name t))
     \<and> (\<forall>es1 k info es2.
           toolEntries gi tools cls = es1 @ (k, info) # es2 \<and> k \<notin> fst ` set es2 \<longrightarrow>
           map_of tm k = Some info)"
proof -
  assume ok: "\<forall>cl\<in>set cls. listTools cl = Inr (tools cl)"
  from aggregate_loop_map_of [OF ok, of gi "[]"] obtain tm where
    tm: "aggregateMCPTools gi listTools cls = Inr tm"
        "map_of tm = map_of (rev (toolEntries gi tools cls))"
    by (auto simp: aggregateMCPTools_def)
  have keys: "k = serverName info @ ''.'' @ originalName info
           \<and> (\<exists>cl\<in>set cls. \<exists>t\<in>set (tools cl).
                 client info = cl \<and> originalName info = name t
                 \<and> serverName info = (case gi cl of None \<Rightarrow> ''unknown'' | Some i \<Rightarrow> name_impl i))"
    if "map_of tm k = Some info" for k info
  proof -
    from that tm(2) have "(k, info) \<in> set (toolEntries gi tools cls)"
      by (auto dest: map_of_SomeD)
    then obtain cl t where m: "cl \<in> set cls" "t \<in> set (tools cl)"
      and e: "(k, info) = toolEntry cl (namespaceOf (gi cl)) t"
      using toolEntries_member by blast
    from e have "k = serverName info @ ''.'' @ originalName info"
      "client info = cl" "originalName info = name t"
      "serverName info = (case gi cl of None \<Rightarrow> ''unknown'' | Some i \<Rightarrow> name_impl i)"
      by (simp_all add: toolEntry_def namespaceOf_def)
    with m show ?thesis by blast
  qed
  have present: "has tm ((case gi cl of None \<Rightarrow> ''unknown'' | Some i \<Rightarrow> name_impl i) @ ''.'' @ name t)"
    if "cl \<in> set cls" "t \<in> set (tools cl)" for cl t
  proof -
    from that have "toolEntry cl (namespaceOf (gi cl)) t \<in> set (toolEntries gi tools cls)"
      by (auto simp: toolEntries_def)
    then have "fst (toolEntry cl (namespaceOf (gi cl)) t) \<in> fst ` set (rev (toolEntries gi tools cls))"
      by force
    then have "map_of tm (fst (toolEntry cl (namespaceOf (gi cl)) t)) \<noteq> None"
      unfolding tm(2) by (simp only: map_of_eq_None_iff not_not)
    then show ?thesis by (simp add: has_def toolEntry_def namespaceOf_def)
  qed
  have last: "map_of tm k = Some info"
    if "toolEntries gi tools cls = es1 @ (k, info) # es2 \<and> k \<notin> fst ` set es2" for es1 k info es2
    using that tm(2) map_of_rev_last_wins [of k es2 es1 info] by simp
  from tm(1) keys present last show ?thesis by blast
qed

theorem aggregateMCPTools_last_write_wins_witness:
  "aggregateMCPTools noServerInfo listsRun [1, 2]
     = Inr [(''unknown.run'',
             \<lparr>tool = \<lparr>name = ''unknown.run'', description = Some ''[unknown] '', inputSchema = ''{}''\<rparr>,
              client = 2, serverName = ''unknown'', originalName = ''run''\<rparr>)]"
  using aggregateMCPTools_last_write_wins [where cls = "[1, 2]" and listTools = listsRun
          and tools = "\<lambda>cl. [runTool]" and gi = noServerInfo]
  by (simp add: aggregateMCPTools_def listsRun_def noServerInfo_def runTool_def toolEntry_def
        namespaceOf_def)

section \<open>waitForTask: cleanup of the status subscription\<close>

lemma subscribe_closure:
  "u_taskId (fst (subscribe m t c)) = t"
  "u_callback (fst (subscribe m t c)) = c"
  "map_of (callbacks (snd (subscribe m t c))) t = Some (u_callbacks (fst (subscribe m t c)))"
  by (simp_all add: subscribe_def Let_def update_conv' split: option.splits)

lemma handleStatus_unsubscribe:
  "map_of (callbacks m) (u_taskId u) = Some (u_callbacks u) \<Longrightarrow> id_task task = u_taskId u \<Longrightarrow>
   u_callback u \<notin> set (handleStatus (unsubscribe m u) task)"
  by (simp add: handleStatus_def unsubscribe_def Let_def delete_conv')

lemma fst_poll_step:
  "fst (case x of (out, fin, reqs, seen) \<Rightarrow> (out, g fin reqs seen)) = fst x"
  by (simp split: prod.splits)

lemma poll_loop_returns:
  "\<exists>p\<in>set script. (case reply p of Inl e \<Rightarrow> True | Inr t \<Rightarrow> terminal (state t)) \<Longrightarrow>
   fst (poll_loop taskId interval tmo cb sg startTime final script now) \<noteq> None"
proof (induction script arbitrary: now)
  case Nil
  then show ?case by simp
next
  case (Cons p script)
  show ?case
  proof (cases "case reply p of Inl e \<Rightarrow> True | Inr t \<Rightarrow> terminal (state t)")
    case True
    then show ?thesis
      by (auto simp: Let_def split: sum.splits option.splits)
  next
    case False
    with Cons.prems have
      "\<exists>q\<in>set script. (case reply q of Inl e \<Rightarrow> True | Inr t \<Rightarrow> terminal (state t))"
      by simp
    from Cons.IH [OF this] have
      ih: "\<And>t. fst (poll_loop taskId interval tmo cb sg startTime final script t) \<noteq> None" .
    obtain r t where sl: "sleep interval sg (now + latency p) = (r, t)" by (cases "sleep interval sg (now + latency p)")
    obtain out fin reqs seen where
      pl: "poll_loop taskId interval tmo cb sg startTime final script t = (out, fin, reqs, seen)"
      by (cases "poll_loop taskId interval tmo cb sg startTime final script t") auto
    from ih [of t] pl have "out \<noteq> None" by simp
    with sl pl show ?thesis
      by (auto simp: Let_def split: sum.splits option.splits)
  qed
qed

lemma outcome_waitForTask:
  "outcome (waitForTask mgr now taskId opts script final)
     = (if signal_aborted (signal opts) now then Some (Inl (TaskAbortedError taskId))
        else fst (poll_loop taskId (case pollInterval opts of None \<Rightarrow> 1000 | Some i \<Rightarrow> i)
                    (timeout opts) (onStatus opts) (signal opts) now final script now))"
  by (simp add: waitForTask_def Let_def split: prod.splits)

text \<open>
  Claim C8. Whenever \<open>waitForTask\<close> was given an \<open>onStatus\<close> callback and finishes, with
  whatever outcome (the task's result, a timeout, an abort, or any error thrown by
  \<open>getTask\<close>, by the callback or by the sleep), the task status manager is the one
  obtained by calling the closure that \<open>subscribe\<close> returned at entry, and
  \<open>handleStatus\<close> for the task no longer calls the callback. It does finish whenever some
  poll answers with an error or with a task in a terminal state.
\<close>

theorem waitForTask_unsubscribes_on_exit:
  "(outcome (waitForTask mgr now taskId opts script final) = Some out \<and> onStatus opts = Some cb \<longrightarrow>
      manager (waitForTask mgr now taskId opts script final)
        = unsubscribe (snd (subscribe mgr taskId cb)) (fst (subscribe mgr taskId cb))
      \<and> cb \<notin> set (handleStatus (manager (waitForTask mgr now taskId opts script final))
                     \<lparr>id_task = taskId, state = st, message = msg, progress = pr\<rparr>))
   \<and> ((\<exists>p\<in>set script. (case reply p of Inl e \<Rightarrow> True | Inr t \<Rightarrow> terminal (state t))) \<longrightarrow>
      outcome (waitForTask mgr now taskId opts script final) \<noteq> None)"
proof (intro conjI impI)
  assume h: "outcome (waitForTask mgr now taskId opts script final) = Some out \<and> onStatus opts = Some cb"
  then show m: "manager (waitForTask mgr now taskId opts script final)
        = unsubscribe (snd (subscribe mgr taskId cb)) (fst (subscribe mgr taskId cb))"
    by (auto simp: waitForTask_def Let_def split: if_splits prod.splits)
  have "u_callback (fst (subscribe mgr taskId cb))
          \<notin> set (handleStatus (unsubscribe (snd (subscribe mgr taskId cb)) (fst (subscribe mgr taskId cb)))
                   \<lparr>id_task = taskId, state = st, message = msg, progress = pr\<rparr>)"
    by (rule handleStatus_unsubscribe) (simp_all add: subscribe_closure)
  with m show "cb \<notin> set (handleStatus (manager (waitForTask mgr now taskId opts script final))
                     \<lparr>id_task = taskId, state = st, message = msg, progress = pr\<rparr>)"
    by (simp add: subscribe_closure)
next
  assume "\<exists>p\<in>set script. (case reply p of Inl e \<Rightarrow> True | Inr t \<Rightarrow> terminal (state t))"
  from poll_loop_returns [OF this]
  show "outcome (waitForTask mgr now taskId opts script final) \<noteq> None"
    by (simp add: outcome_waitForTask)
qed

theorem waitForTask_unsubscribes_on_exit_witness:
  "outcome (waitForTask newTaskStatusManager 0 ''t'' polling
              [answers (runningTask ''t''), answers (completedTask ''t'')] (Inr (emptyResult ''t'')))
     = Some (Inr (emptyResult ''t''))
   \<and> handleStatus (manager (waitForTask newTaskStatusManager 0 ''t'' polling
              [answers (runningTask ''t''), answers (completedTask ''t'')] (Inr (emptyResult ''t''))))
        (runningTask ''t'') = []
   \<and> outcome (waitForTask newTaskStatusManager 0 ''t'' polling
              [answers (runningTask ''t''), answers (runningTask ''t''), answers (runningTask ''t'')]
              (Inr (emptyResult ''t'')))
     = Some (Inl (TaskTimeoutError ''t'' 25))
   \<and> handleStatus (manager (waitForTask newTaskStatusManager 0 ''t'' polling
              [answers (runningTask ''t''), answers (runningTask ''t''), answers (runningTask ''t'')]
              (Inr (emptyResult ''t''))))
        (runningTask ''t'') = []
   \<and> outcome (waitForTask newTaskStatusManager 0 ''t'' (polling\<lparr>signal := Some (Some 0)\<rparr>)
              [answers (completedTask ''t'')] (Inr (emptyResult ''t'')))
     = Some (Inl (TaskAbortedError ''t''))
   \<and> handleStatus (manager (waitForTask newTaskStatusManager 0 ''t'' (polling\<lparr>signal := Some (Some 0)\<rparr>)
              [answers (completedTask ''t'')] (Inr (emptyResult ''t''))))
        (runningTask ''t'') = []
   \<and> outcome (waitForTask newTaskStatusManager 0 ''t'' polling
              [\<lparr>latency = 3, reply = Inl (MCPConnectionError ''lost''), thrown = None\<rparr>]
              (Inr (emptyResult ''t'')))
     = Some (Inl (MCPConnectionError ''lost''))
   \<and> handleStatus (manager (waitForTask newTaskStatusManager 0 ''t'' polling
              [\<lparr>latency = 3, reply = Inl (MCPConnectionError ''lost''), thrown = None\<rparr>]
              (Inr (emptyResult ''t''))))
        (runningTask ''t'') = []
   \<and> handleStatus (manager (waitForTask newTaskStatusManager 0 ''t'' polling
              [answers (runningTask ''t'')] (Inr (emptyResult ''t''))))
        (runningTask ''t'') = [7]"
  using waitForTask_unsubscribes_on_exit [where mgr = newTaskStatusManager and now = 0
          and taskId = "''t''" and opts = polling
          and script = "[answers (runningTask ''t''), answers (completedTask ''t'')]"
          and final = "Inr (emptyResult ''t'')" and out = "Inr (emptyResult ''t'')" and cb = 7
          and st = running and msg = None and pr = None]
  by (simp add: waitForTask_def polling_def answers_def runningTask_def completedTask_def
        emptyResult_def newTaskStatusManager_def subscribe_def unsubscribe_def handleStatus_def
        set_add_def sleep_def signal_aborted_def timeoutExceeded_def terminal_def Let_def)

end
